theory Spec2Isabelle
  imports Complex_Main "HOL-Library.Sublist"
begin

section \<open>KrishiMitra: the HTTP service (Scripts/app.py) and the preprocessing script\<close>

text \<open>
  The service keeps two dictionaries, \<open>MODELS\<close> and \<open>SCALERS\<close>, filled once by
  \<open>load_models_and_scalers\<close>, and answers three routes. All numerical work is done by
  numpy, scikit-learn and Keras; those calls are parameters of the model (functions that
  return a value or raise), so that every theorem holds for whatever the libraries
  compute. A JSON number or a model output is the real number that the floating-point
  value stands for. The handlers do one arithmetic operation on such values, the product
  in the soil response; it is numpy's floating-point multiplication, a parameter as
  well. Log lines are not modelled.
\<close>

subsection \<open>Python values and exceptions\<close>

text \<open>
  A parsed JSON body, as \<open>request.json\<close> hands it to a handler. A dictionary is an
  association list read with \<open>map_of\<close>.
\<close>

datatype json =
    JNull
  | JBool bool
  | JNum real
  | JStr string
  | JArr "json list"
  | JObj "(string \<times> json) list"

datatype exn =
    TypeError
  | KeyError
  | ValueError
  | FileNotFoundError
  | OSError
  | HTTPException
  | LibraryError string

text \<open>Truth value of a Python object, as \<open>not data\<close> tests it.\<close>

fun truthy :: "json \<Rightarrow> bool" where
  "truthy JNull = False"
| "truthy (JBool b) = b"
| "truthy (JNum x) = (x \<noteq> 0)"
| "truthy (JStr s) = (s \<noteq> [])"
| "truthy (JArr xs) = (xs \<noteq> [])"
| "truthy (JObj kvs) = (kvs \<noteq> [])"

text \<open>\<open>len(data)\<close>: defined on strings, lists and dictionaries, a TypeError elsewhere.\<close>

fun py_len :: "json \<Rightarrow> exn + nat" where
  "py_len (JStr s) = Inr (length s)"
| "py_len (JArr xs) = Inr (length xs)"
| "py_len (JObj kvs) = Inr (length (remdups (map fst kvs)))"
| "py_len JNull = Inl TypeError"
| "py_len (JBool b) = Inl TypeError"
| "py_len (JNum x) = Inl TypeError"

text \<open>
  \<open>feature in data\<close>: key membership on a dictionary, element membership on a list,
  substring test on a string, a TypeError on a value that is not a container.
\<close>

fun py_contains :: "json \<Rightarrow> string \<Rightarrow> exn + bool" where
  "py_contains (JObj kvs) k = Inr (map_of kvs k \<noteq> None)"
| "py_contains (JArr xs) k = Inr (JStr k \<in> set xs)"
| "py_contains (JStr s) k = Inr (sublist k s)"
| "py_contains JNull k = Inl TypeError"
| "py_contains (JBool b) k = Inl TypeError"
| "py_contains (JNum x) k = Inl TypeError"

text \<open>\<open>data[feature]\<close> with a string key: only a dictionary accepts it.\<close>

fun py_getitem :: "json \<Rightarrow> string \<Rightarrow> exn + json" where
  "py_getitem (JObj kvs) k = (case map_of kvs k of None \<Rightarrow> Inl KeyError | Some v \<Rightarrow> Inr v)"
| "py_getitem JNull k = Inl TypeError"
| "py_getitem (JBool b) k = Inl TypeError"
| "py_getitem (JNum x) k = Inl TypeError"
| "py_getitem (JStr s) k = Inl TypeError"
| "py_getitem (JArr xs) k = Inl TypeError"

text \<open>\<open>all(feature in data for feature in feature_names)\<close>, stopping at the first False.\<close>

fun all_in :: "json \<Rightarrow> string list \<Rightarrow> exn + bool" where
  "all_in data [] = Inr True"
| "all_in data (f # fs) =
     (case py_contains data f of
        Inl e \<Rightarrow> Inl e
      | Inr b \<Rightarrow> if b then all_in data fs else Inr False)"

text \<open>\<open>[data[feature] for feature in feature_names]\<close>.\<close>

fun get_all :: "json \<Rightarrow> string list \<Rightarrow> exn + json list" where
  "get_all data [] = Inr []"
| "get_all data (f # fs) =
     (case py_getitem data f of
        Inl e \<Rightarrow> Inl e
      | Inr v \<Rightarrow> (case get_all data fs of Inl e \<Rightarrow> Inl e | Inr vs \<Rightarrow> Inr (v # vs)))"

text \<open>\<open>str(n)\<close> for a length, as the f-string of the size message formats it.\<close>

definition digit_char :: "nat \<Rightarrow> char" where
  "digit_char d = ''0123456789'' ! (d mod 10)"

fun str_nat :: "nat \<Rightarrow> string" where
  "str_nat n = (if n < 10 then [digit_char n] else str_nat (n div 10) @ [digit_char (n mod 10)])"

declare str_nat.simps [simp del]

subsection \<open>Responses, library calls and the loaded artifacts\<close>

datatype body =
    ErrorBody string
  | HealthBody string bool bool
  | SoilBody string real
  | WeatherBody real

type_synonym response = "body \<times> nat"

text \<open>The calls into a loaded scaler or model that a request makes, in order.\<close>

datatype call = ScalerTransform string | ModelPredict string

text \<open>
  numpy, over an array type \<open>'a\<close> that the model leaves open: \<open>np.array(v)\<close>,
  \<open>a.reshape(shape)\<close>, \<open>a[0][0]\<close> read as a number, and \<open>x * y\<close> on an array
  scalar: the floating-point product, which is the exact product rounded to the scalar's
  format and need not equal it.
\<close>

record 'a numpy =
  np_array :: "json \<Rightarrow> exn + 'a"
  reshape :: "'a \<Rightarrow> int list \<Rightarrow> exn + 'a"
  item00 :: "'a \<Rightarrow> exn + real"
  np_multiply :: "real \<Rightarrow> real \<Rightarrow> real"

text \<open>
  The two dictionaries of the module: a model by its \<open>predict\<close>, a scaler by its
  \<open>transform\<close>.
\<close>

record 'a artifacts =
  MODELS :: "string \<rightharpoonup> ('a \<Rightarrow> exn + 'a)"
  SCALERS :: "string \<rightharpoonup> ('a \<Rightarrow> exn + 'a)"

text \<open>
  A computation inside a handler's \<open>try\<close>: a value or the exception raised, with the
  library calls made so far.
\<close>

type_synonym 'r traced = "(exn + 'r) \<times> call list"

definition pure_t :: "'r \<Rightarrow> 'r traced" where
  "pure_t x = (Inr x, [])"

definition lift_t :: "exn + 'r \<Rightarrow> 'r traced" where
  "lift_t r = (r, [])"

definition call_t :: "call \<Rightarrow> exn + 'r \<Rightarrow> 'r traced" where
  "call_t c r = (r, [c])"

definition bind_t :: "'r traced \<Rightarrow> ('r \<Rightarrow> 's traced) \<Rightarrow> 's traced" where
  "bind_t m f =
     (case m of
        (Inl e, tr) \<Rightarrow> (Inl e, tr)
      | (Inr x, tr) \<Rightarrow> (case f x of (r, tr') \<Rightarrow> (r, tr @ tr')))"

text \<open>\<open>d[k]\<close> on one of the two dictionaries.\<close>

definition lookup_t :: "(string \<rightharpoonup> 'v) \<Rightarrow> string \<Rightarrow> 'v traced" where
  "lookup_t d k = (case d k of None \<Rightarrow> (Inl KeyError, []) | Some v \<Rightarrow> (Inr v, []))"

text \<open>The \<open>except Exception\<close> of a handler: any exception becomes the handler's 500.\<close>

definition catch_all :: "string \<Rightarrow> response traced \<Rightarrow> response \<times> call list" where
  "catch_all msg m =
     (case m of
        (Inl e, tr) \<Rightarrow> ((ErrorBody msg, 500), tr)
      | (Inr resp, tr) \<Rightarrow> (resp, tr))"

subsection \<open>GET /\<close>

definition index :: "'a artifacts \<Rightarrow> response" where
  "index app =
     (HealthBody ''healthy'' (MODELS app ''soil'' \<noteq> None) (MODELS app ''weather'' \<noteq> None), 200)"

subsection \<open>POST /soil-analysis\<close>

definition feature_names :: "string list" where
  "feature_names =
     [''N'', ''P'', ''K'', ''pH'', ''EC'', ''OC'', ''S'', ''Zn'', ''Fe'', ''Cu'', ''Mn'', ''B'']"

text \<open>
  The body of the \<open>try\<close>. \<open>request_json\<close> is what \<open>request.json\<close> evaluates to:
  the parsed body, or the exception Flask raises on a body it cannot parse.
\<close>

definition soil_try :: "'a numpy \<Rightarrow> 'a artifacts \<Rightarrow> exn + json \<Rightarrow> response traced" where
  "soil_try np app request_json =
     (if MODELS app ''soil'' = None \<or> SCALERS app ''soil'' = None
      then pure_t (ErrorBody ''Soil analysis model not loaded'', 500)
      else bind_t (lift_t request_json) (\<lambda>data.
        if \<not> truthy data then pure_t (ErrorBody ''No soil data provided'', 400)
        else bind_t (lift_t (all_in data feature_names)) (\<lambda>present.
          if \<not> present then pure_t (ErrorBody ''Missing required soil features'', 400)
          else bind_t (lift_t (get_all data feature_names)) (\<lambda>features.
            bind_t (lift_t (np_array np (JArr [JArr features]))) (\<lambda>features_array.
            bind_t (lookup_t (SCALERS app) ''soil'') (\<lambda>scaler.
            bind_t (call_t (ScalerTransform ''soil'') (scaler features_array)) (\<lambda>scaled_features.
            bind_t (lookup_t (MODELS app) ''soil'') (\<lambda>model.
            bind_t (call_t (ModelPredict ''soil'') (model scaled_features)) (\<lambda>prediction.
            bind_t (lift_t (item00 np prediction)) (\<lambda>p.
              pure_t (SoilBody (if p > 0.5 then ''High'' else ''Low'') (np_multiply np p 100),
                      200)))))))))))"

definition soil_analysis :: "'a numpy \<Rightarrow> 'a artifacts \<Rightarrow> exn + json \<Rightarrow> response \<times> call list" where
  "soil_analysis np app request_json =
     catch_all ''Internal server error during soil analysis'' (soil_try np app request_json)"

subsection \<open>POST /weather-prediction\<close>

text \<open>
  The shape test: a dictionary gives \<open>data.get("data", None)\<close>, a list is kept, anything
  else is refused (\<open>None\<close> here).
\<close>

fun extract_data :: "json \<Rightarrow> json option" where
  "extract_data (JObj kvs) = Some (case map_of kvs ''data'' of None \<Rightarrow> JNull | Some v \<Rightarrow> v)"
| "extract_data (JArr xs) = Some (JArr xs)"
| "extract_data JNull = None"
| "extract_data (JBool b) = None"
| "extract_data (JNum x) = None"
| "extract_data (JStr s) = None"

text \<open>\<open>not data or len(data) != 3\<close>: \<open>len\<close> is only called on a truthy value.\<close>

definition bad_size :: "json \<Rightarrow> exn + bool" where
  "bad_size data =
     (if \<not> truthy data then Inr True
      else (case py_len data of Inl e \<Rightarrow> Inl e | Inr n \<Rightarrow> Inr (n \<noteq> 3)))"

definition size_message :: "nat \<Rightarrow> string" where
  "size_message n =
     ''Invalid input size. Expected a JSON array with exactly 3 values, but got ''
       @ str_nat n @ '' values.''"

definition weather_try :: "'a numpy \<Rightarrow> 'a artifacts \<Rightarrow> exn + json \<Rightarrow> response traced" where
  "weather_try np app request_json =
     (if MODELS app ''weather'' = None \<or> SCALERS app ''weather'' = None
      then pure_t (ErrorBody
        ''Weather prediction model or scaler not loaded. Please ensure the weather model and scaler files are available.'',
        500)
      else bind_t (lift_t request_json) (\<lambda>body.
        case extract_data body of
          None \<Rightarrow> pure_t (ErrorBody ''Invalid input format. Expected a JSON array or object.'', 400)
        | Some data \<Rightarrow>
            bind_t (lift_t (bad_size data)) (\<lambda>bad.
              if bad
              then bind_t (lift_t (py_len data)) (\<lambda>n. pure_t (ErrorBody (size_message n), 400))
              else bind_t (lift_t (np_array np data)) (\<lambda>arr.
                bind_t (lift_t (reshape np arr [1, 1, 3])) (\<lambda>input_array.
                bind_t (lift_t (reshape np input_array [- 1, 3])) (\<lambda>flat.
                bind_t (lookup_t (SCALERS app) ''weather'') (\<lambda>scaler.
                bind_t (call_t (ScalerTransform ''weather'') (scaler flat)) (\<lambda>scaled.
                bind_t (lift_t (reshape np scaled [1, 1, 3])) (\<lambda>scaled_features.
                bind_t (lookup_t (MODELS app) ''weather'') (\<lambda>model.
                bind_t (call_t (ModelPredict ''weather'') (model scaled_features)) (\<lambda>prediction.
                bind_t (lift_t (item00 np prediction)) (\<lambda>t.
                  pure_t (WeatherBody t, 200)))))))))))))"

definition weather_prediction ::
  "'a numpy \<Rightarrow> 'a artifacts \<Rightarrow> exn + json \<Rightarrow> response \<times> call list" where
  "weather_prediction np app request_json =
     catch_all ''Internal server error during weather prediction'' (weather_try np app request_json)"

subsection \<open>Paths and files\<close>

text \<open>
  \<open>os.path.join\<close> and \<open>os.path.dirname\<close> of \<open>posixpath\<close>. A file system is a
  map from path strings to file contents: two paths name the same file exactly when they
  are the same string, so names are case-sensitive and there are no links.
\<close>

definition path_join :: "string \<Rightarrow> string \<Rightarrow> string" where
  "path_join a b =
     (if b \<noteq> [] \<and> hd b = CHR ''/'' then b
      else if a = [] \<or> last a = CHR ''/'' then a @ b
      else a @ ''/'' @ b)"

definition join_all :: "string \<Rightarrow> string list \<Rightarrow> string" where
  "join_all a ps = foldl path_join a ps"

definition dirname :: "string \<Rightarrow> string" where
  "dirname p =
     (let head = rev (dropWhile (\<lambda>c. c \<noteq> CHR ''/'') (rev p))
      in if head \<noteq> [] \<and> \<not> list_all (\<lambda>c. c = CHR ''/'') head
         then rev (dropWhile (\<lambda>c. c = CHR ''/'') (rev head))
         else head)"

type_synonym 'f fs = "string \<rightharpoonup> 'f"

definition path_exists :: "'f fs \<Rightarrow> string \<Rightarrow> bool" where
  "path_exists files p = (files p \<noteq> None)"

subsection \<open>load_models_and_scalers\<close>

text \<open>
  \<open>current_dir\<close> is the directory of app.py; the project root is one level up. The
  functions below are the path variables of \<open>load_models_and_scalers\<close>.
\<close>

definition project_root :: "string \<Rightarrow> string" where
  "project_root current_dir = dirname current_dir"

definition soil_model_path :: "string \<Rightarrow> string" where
  "soil_model_path current_dir =
     join_all (project_root current_dir) [''Models'', ''Soil_Analysis'', ''soil_tabular_model.h5'']"

definition soil_scaler_path :: "string \<Rightarrow> string" where
  "soil_scaler_path current_dir =
     join_all (project_root current_dir) [''Models'', ''Soil_analysis'', ''scaler.pkl'']"

definition weather_model_path :: "string \<Rightarrow> string" where
  "weather_model_path current_dir =
     join_all (project_root current_dir) [''Models'', ''Weather_Forecast'', ''weather_model.h5'']"

definition weather_scaler_path :: "string \<Rightarrow> string" where
  "weather_scaler_path current_dir =
     join_all (project_root current_dir) [''Models'', ''Weather_Forecast'', ''scaler.pkl'']"

definition preprocess_path :: "string \<Rightarrow> string" where
  "preprocess_path current_dir = path_join current_dir ''preprocess.py''"

definition train_soil_path :: "string \<Rightarrow> string" where
  "train_soil_path current_dir =
     join_all (project_root current_dir) [''Models'', ''Soil_analysis'', ''train_soil_model.py'']"

definition train_weather_path :: "string \<Rightarrow> string" where
  "train_weather_path current_dir =
     join_all (project_root current_dir)
       [''Models'', ''Weather_Forecast'', ''train_weather_model.py'']"

definition x_train_scaled_path :: "string \<Rightarrow> string" where
  "x_train_scaled_path current_dir =
     join_all (project_root current_dir) [''data'', ''soil'', ''X_train_scaled.csv'']"

text \<open>
  What the loader calls: \<open>import_module_from_file\<close> runs a script, which may change
  files and may raise; Keras's \<open>load_model\<close> and \<open>joblib.load\<close> read a file and
  return the object or raise.
\<close>

record ('f, 'a) loader_env =
  current_dir :: string
  import_module_from_file :: "string \<Rightarrow> string \<Rightarrow> 'f fs \<Rightarrow> exn option \<times> 'f fs"
  load_model :: "'f fs \<Rightarrow> string \<Rightarrow> exn + ('a \<Rightarrow> exn + 'a)"
  joblib_load :: "'f fs \<Rightarrow> string \<Rightarrow> exn + ('a \<Rightarrow> exn + 'a)"

text \<open>
  One guarded build step: the script runs when it exists; an exception it raises is
  logged and dropped, and what it wrote before stays.
\<close>

definition run_script :: "('f, 'a) loader_env \<Rightarrow> string \<Rightarrow> string \<Rightarrow> 'f fs \<Rightarrow> 'f fs" where
  "run_script env path name files =
     (if path_exists files path then snd (import_module_from_file env path name files)
      else files)"

definition build_phase :: "('f, 'a) loader_env \<Rightarrow> 'f fs \<Rightarrow> 'f fs" where
  "build_phase env files =
     (let d = current_dir env;
          files1 =
            (if \<not> path_exists files (soil_scaler_path d)
                \<or> \<not> path_exists files (x_train_scaled_path d)
             then run_script env (preprocess_path d) ''preprocess'' files
             else files);
          files2 =
            (if \<not> path_exists files1 (soil_model_path d)
             then run_script env (train_soil_path d) ''train_soil'' files1
             else files1);
          files3 =
            (if \<not> path_exists files2 (weather_model_path d)
                \<or> \<not> path_exists files2 (weather_scaler_path d)
             then run_script env (train_weather_path d) ''train_weather'' files2
             else files2)
      in files3)"

definition empty_artifacts :: "'a artifacts" where
  "empty_artifacts = \<lparr> MODELS = Map.empty, SCALERS = Map.empty \<rparr>"

text \<open>
  One statement of the loading \<open>try\<close>: \<open>if os.path.exists(p): d[k] = load(p)\<close>. The
  dictionaries are updated in place, so the entries stored before an exception are still
  there when the \<open>except\<close> clause starts.
\<close>

definition load_into ::
  "bool \<Rightarrow> exn + 'v \<Rightarrow> ('v \<Rightarrow> 's \<Rightarrow> 's) \<Rightarrow> 's \<Rightarrow> exn option \<times> 's" where
  "load_into present loaded store st =
     (if present
      then (case loaded of Inl e \<Rightarrow> (Some e, st) | Inr v \<Rightarrow> (None, store v st))
      else (None, st))"

definition then_load :: "exn option \<times> 's \<Rightarrow> ('s \<Rightarrow> exn option \<times> 's) \<Rightarrow> exn option \<times> 's" where
  "then_load r step = (case r of (Some e, st) \<Rightarrow> (Some e, st) | (None, st) \<Rightarrow> step st)"

definition set_model :: "string \<Rightarrow> ('a \<Rightarrow> exn + 'a) \<Rightarrow> 'a artifacts \<Rightarrow> 'a artifacts" where
  "set_model k m st = st\<lparr> MODELS := (MODELS st)(k \<mapsto> m) \<rparr>"

definition set_scaler :: "string \<Rightarrow> ('a \<Rightarrow> exn + 'a) \<Rightarrow> 'a artifacts \<Rightarrow> 'a artifacts" where
  "set_scaler k s st = st\<lparr> SCALERS := (SCALERS st)(k \<mapsto> s) \<rparr>"

definition load_try :: "('f, 'a) loader_env \<Rightarrow> 'f fs \<Rightarrow> exn option \<times> 'a artifacts" where
  "load_try env files =
     (let d = current_dir env in
      then_load (then_load (then_load
        (load_into (path_exists files (soil_model_path d))
           (load_model env files (soil_model_path d)) (set_model ''soil'') empty_artifacts)
        (load_into (path_exists files (soil_scaler_path d))
           (joblib_load env files (soil_scaler_path d)) (set_scaler ''soil'')))
        (load_into (path_exists files (weather_model_path d))
           (load_model env files (weather_model_path d)) (set_model ''weather'')))
        (load_into (path_exists files (weather_scaler_path d))
           (joblib_load env files (weather_scaler_path d)) (set_scaler ''weather'')))"

text \<open>The function returns the two dictionaries; the model also returns the files left.\<close>

definition load_models_and_scalers ::
  "('f, 'a) loader_env \<Rightarrow> 'f fs \<Rightarrow> 'a artifacts \<times> 'f fs" where
  "load_models_and_scalers env files =
     (let files' = build_phase env files
      in case load_try env files' of
           (Some e, st) \<Rightarrow> (empty_artifacts, files')
         | (None, st) \<Rightarrow> (st, files'))"

subsection \<open>Scripts/preprocess.py\<close>

text \<open>
  A data frame is the list of its named columns; a series is one named column. The
  script's paths are relative and resolve against the working directory \<open>cwd\<close>.
  Parsing and writing CSV text, pickling, \<open>train_test_split\<close> and the
  \<open>StandardScaler\<close> are library code: parameters, each a function of its arguments
  (with \<open>random_state\<close> given, the split draws nothing from outside). \<open>writable\<close>
  tells whether a file can be created at a path (its directory exists).
\<close>

datatype cell = Num real | Text string

type_synonym dataframe = "(string \<times> cell list) list"

type_synonym series = "string \<times> cell list"

datatype step =
    ReadCsv string
  | TrainTestSplit real nat
  | FitTransform dataframe
  | Transform dataframe
  | ToCsv string
  | Dump string

record ('f, 'sc) pre_env =
  cwd :: string
  parse_csv :: "'f \<Rightarrow> exn + dataframe"
  to_csv :: "dataframe \<Rightarrow> 'f"
  joblib_dump :: "'sc \<Rightarrow> 'f"
  writable :: "string \<Rightarrow> bool"
  train_test_split ::
    "dataframe \<Rightarrow> series \<Rightarrow> real \<Rightarrow> nat \<Rightarrow> exn + (dataframe \<times> dataframe \<times> series \<times> series)"
  fit_transform :: "dataframe \<Rightarrow> exn + ('sc \<times> real list list)"
  transform :: "'sc \<Rightarrow> dataframe \<Rightarrow> exn + real list list"

text \<open>
  The script runs on the files and the list of steps done so far; an exception ends it
  (there is no handler) and leaves what was written before.
\<close>

type_synonym ('f, 'r) script = "'f fs \<times> step list \<Rightarrow> (exn + 'r) \<times> ('f fs \<times> step list)"

definition bind_s :: "('f, 'r) script \<Rightarrow> ('r \<Rightarrow> ('f, 'q) script) \<Rightarrow> ('f, 'q) script" where
  "bind_s m f st = (case m st of (Inl e, st') \<Rightarrow> (Inl e, st') | (Inr x, st') \<Rightarrow> f x st')"

definition lift_s :: "exn + 'r \<Rightarrow> ('f, 'r) script" where
  "lift_s r st = (r, st)"

definition step_s :: "step \<Rightarrow> exn + 'r \<Rightarrow> ('f, 'r) script" where
  "step_s ev r st = (r, (fst st, snd st @ [ev]))"

definition read_csv :: "('f, 'sc) pre_env \<Rightarrow> string \<Rightarrow> ('f, dataframe) script" where
  "read_csv env p st =
     step_s (ReadCsv p)
       (case fst st (path_join (cwd env) p) of
          None \<Rightarrow> Inl FileNotFoundError
        | Some f \<Rightarrow> parse_csv env f) st"

definition write_file :: "('f, 'sc) pre_env \<Rightarrow> step \<Rightarrow> string \<Rightarrow> 'f \<Rightarrow> ('f, unit) script" where
  "write_file env ev p content st =
     (if writable env (path_join (cwd env) p)
      then (Inr (), ((fst st)(path_join (cwd env) p \<mapsto> content), snd st @ [ev]))
      else (Inl OSError, (fst st, snd st @ [ev])))"

text \<open>\<open>data.drop(columns=[c])\<close>, \<open>data[c]\<close> and \<open>pd.DataFrame(rows, columns=cols)\<close>.\<close>

definition drop_columns :: "dataframe \<Rightarrow> string \<Rightarrow> exn + dataframe" where
  "drop_columns df c =
     (if c \<in> set (map fst df) then Inr (filter (\<lambda>col. fst col \<noteq> c) df) else Inl KeyError)"

definition column :: "dataframe \<Rightarrow> string \<Rightarrow> exn + series" where
  "column df c = (case map_of df c of None \<Rightarrow> Inl KeyError | Some vs \<Rightarrow> Inr (c, vs))"

definition DataFrame :: "real list list \<Rightarrow> string list \<Rightarrow> exn + dataframe" where
  "DataFrame rows cols =
     (if list_all (\<lambda>r. length r = length cols) rows
      then Inr (map (\<lambda>i. (cols ! i, map (\<lambda>r. Num (r ! i)) rows)) [0..<length cols])
      else Inl ValueError)"

definition csv_path :: string where
  "csv_path = ''Data/Soil/soil_data.csv''"

definition x_train_out :: string where
  "x_train_out = ''Data/Soil/X_train_scaled.csv''"

definition x_test_out :: string where
  "x_test_out = ''Data/Soil/X_test_scaled.csv''"

definition y_train_out :: string where
  "y_train_out = ''Data/Soil/y_train.csv''"

definition y_test_out :: string where
  "y_test_out = ''Data/Soil/y_test.csv''"

definition scaler_out :: string where
  "scaler_out = ''Models/Soil_Analysis/scaler.pkl''"

definition preprocess :: "('f, 'sc) pre_env \<Rightarrow> ('f, unit) script" where
  "preprocess env =
     bind_s (read_csv env csv_path) (\<lambda>data.
     bind_s (lift_s (drop_columns data ''Output'')) (\<lambda>X.
     bind_s (lift_s (column data ''Output'')) (\<lambda>y.
     bind_s (step_s (TrainTestSplit (1 / 5) 42) (train_test_split env X y (1 / 5) 42))
       (\<lambda>(X_train, X_test, y_train, y_test).
     bind_s (step_s (FitTransform X_train) (fit_transform env X_train))
       (\<lambda>(scaler, X_train_scaled).
     bind_s (step_s (Transform X_test) (transform env scaler X_test)) (\<lambda>X_test_scaled.
     bind_s (lift_s (DataFrame X_train_scaled (map fst X))) (\<lambda>train_frame.
     bind_s (write_file env (ToCsv x_train_out) x_train_out (to_csv env train_frame)) (\<lambda>_.
     bind_s (lift_s (DataFrame X_test_scaled (map fst X))) (\<lambda>test_frame.
     bind_s (write_file env (ToCsv x_test_out) x_test_out (to_csv env test_frame)) (\<lambda>_.
     bind_s (write_file env (ToCsv y_train_out) y_train_out (to_csv env [y_train])) (\<lambda>_.
     bind_s (write_file env (ToCsv y_test_out) y_test_out (to_csv env [y_test])) (\<lambda>_.
     write_file env (Dump scaler_out) scaler_out (joblib_dump env scaler)))))))))))))"

text \<open>A file's resolved path, for a script started in \<open>cwd\<close>.\<close>

definition at_cwd :: "('f, 'sc) pre_env \<Rightarrow> string \<Rightarrow> string" where
  "at_cwd env p = path_join (cwd env) p"

text \<open>
  A script keeps the file at path \<open>q\<close> when no run of it, finished or aborted, changes
  what is stored there.
\<close>

definition keeps :: "string \<Rightarrow> ('f, 'r) script \<Rightarrow> bool" where
  "keeps q m = (\<forall>st. fst (snd (m st)) q = fst st q)"

subsection \<open>Example environments\<close>

text \<open>
  Small concrete libraries and artifacts, used to run the handlers on concrete requests.
  Arrays are flat lists of reals; the example scaler halves every entry and the example
  model returns the sum of its input divided by 24. The example product rounds to the
  nearest multiple of \<open>2 ^ - 21\<close>, the spacing of single-precision numbers between 4
  and 8.
\<close>

definition example_round :: "real \<Rightarrow> real" where
  "example_round x = of_int \<lfloor>x * 2097152 + 1 / 2\<rfloor> / 2097152"

fun example_flat :: "json \<Rightarrow> real list" where
  "example_flat (JNum x) = [x]"
| "example_flat (JArr xs) = concat (map example_flat xs)"
| "example_flat JNull = []"
| "example_flat (JBool b) = []"
| "example_flat (JStr s) = []"
| "example_flat (JObj kvs) = []"

definition example_numpy :: "real list numpy" where
  "example_numpy =
     \<lparr> np_array = (\<lambda>v. Inr (example_flat v)),
       reshape = (\<lambda>a shape. if length a = 3 then Inr a else Inl ValueError),
       item00 = (\<lambda>a. case a of [] \<Rightarrow> Inl ValueError | x # _ \<Rightarrow> Inr x),
       np_multiply = (\<lambda>x y. example_round (x * y)) \<rparr>"

definition example_scaler :: "real list \<Rightarrow> exn + real list" where
  "example_scaler a = Inr (map (\<lambda>x. x / 2) a)"

definition example_model :: "real list \<Rightarrow> exn + real list" where
  "example_model a = Inr [sum_list a / 24]"

definition example_app :: "real list artifacts" where
  "example_app =
     \<lparr> MODELS = [''soil'' \<mapsto> example_model, ''weather'' \<mapsto> example_model],
       SCALERS = [''soil'' \<mapsto> example_scaler, ''weather'' \<mapsto> example_scaler] \<rparr>"

definition example_soil_request :: "(string \<times> json) list" where
  "example_soil_request =
     [(''N'', JNum 1), (''P'', JNum 1), (''K'', JNum 1), (''pH'', JNum 1), (''EC'', JNum 1),
      (''OC'', JNum 1), (''S'', JNum 1), (''Zn'', JNum 1), (''Fe'', JNum 1), (''Cu'', JNum 1),
      (''Mn'', JNum 1), (''B'', JNum 1)]"

text \<open>
  A preprocessing run in \<open>/app\<close> on a five-row CSV with one feature column: the example
  split takes the first row as the test set, the example scaler subtracts the mean of the
  training column. Files are a parsed CSV (\<open>Inl\<close>) or a pickled scaler (\<open>Inr\<close>).
\<close>

fun cell_value :: "cell \<Rightarrow> real" where
  "cell_value (Num x) = x"
| "cell_value (Text s) = 0"

definition example_split ::
  "dataframe \<Rightarrow> series \<Rightarrow> real \<Rightarrow> nat \<Rightarrow> exn + (dataframe \<times> dataframe \<times> series \<times> series)" where
  "example_split X y test_size random_state =
     Inr (map (\<lambda>c. (fst c, tl (snd c))) X, map (\<lambda>c. (fst c, take 1 (snd c))) X,
          (fst y, tl (snd y)), (fst y, take 1 (snd y)))"

definition example_pre_env :: "(dataframe + real, real) pre_env" where
  "example_pre_env =
     \<lparr> cwd = ''/app'',
       parse_csv = (\<lambda>f. case f of Inl df \<Rightarrow> Inr df | Inr s \<Rightarrow> Inl (LibraryError ''ParserError'')),
       to_csv = Inl,
       joblib_dump = Inr,
       writable = (\<lambda>p. True),
       train_test_split = example_split,
       fit_transform = (\<lambda>X. case X of
           [c] \<Rightarrow> (let xs = map cell_value (snd c); m = sum_list xs / real (length xs)
                   in Inr (m, map (\<lambda>x. [x - m]) xs))
         | _ \<Rightarrow> Inl ValueError),
       transform = (\<lambda>m X. case X of
           [c] \<Rightarrow> Inr (map (\<lambda>v. [cell_value v - m]) (snd c))
         | _ \<Rightarrow> Inl ValueError) \<rparr>"

definition example_pre_files :: "(dataframe + real) fs" where
  "example_pre_files =
     [''/app/Data/Soil/soil_data.csv'' \<mapsto>
        Inl [(''N'', [Num 1, Num 2, Num 3, Num 4, Num 6]),
             (''Output'', [Num 0, Num 1, Num 0, Num 1, Num 1])]]"

definition example_pre_after :: "(dataframe + real) fs" where
  "example_pre_after =
     example_pre_files
       (''/app/Data/Soil/X_train_scaled.csv'' \<mapsto>
          Inl [(''N'', [Num (- (7 / 4)), Num (- (3 / 4)), Num (1 / 4), Num (9 / 4)])],
        ''/app/Data/Soil/X_test_scaled.csv'' \<mapsto> Inl [(''N'', [Num (- (11 / 4))])],
        ''/app/Data/Soil/y_train.csv'' \<mapsto> Inl [(''Output'', [Num 1, Num 0, Num 1, Num 1])],
        ''/app/Data/Soil/y_test.csv'' \<mapsto> Inl [(''Output'', [Num 0])],
        ''/app/Models/Soil_Analysis/scaler.pkl'' \<mapsto> Inr (15 / 4))"

definition example_steps :: "step list" where
  "example_steps =
     [ReadCsv ''Data/Soil/soil_data.csv'', TrainTestSplit (1 / 5) 42,
      FitTransform [(''N'', [Num 2, Num 3, Num 4, Num 6])], Transform [(''N'', [Num 1])],
      ToCsv ''Data/Soil/X_train_scaled.csv'', ToCsv ''Data/Soil/X_test_scaled.csv'',
      ToCsv ''Data/Soil/y_train.csv'', ToCsv ''Data/Soil/y_test.csv'',
      Dump ''Models/Soil_Analysis/scaler.pkl'']"

text \<open>
  A loader in \<open>/app/Scripts\<close> with all four artifact files present, whose build scripts
  do nothing and whose weather scaler cannot be unpickled.
\<close>

definition example_loader :: "(nat, real list) loader_env" where
  "example_loader =
     \<lparr> current_dir = ''/app/Scripts'',
       import_module_from_file = (\<lambda>path name files. (None, files)),
       load_model = (\<lambda>files p. Inr example_model),
       joblib_load = (\<lambda>files p. if p = ''/app/Models/Weather_Forecast/scaler.pkl''
                                  then Inl (LibraryError ''UnpicklingError'')
                                  else Inr example_scaler) \<rparr>"

definition example_files :: "nat fs" where
  "example_files =
     [''/app/Models/Soil_Analysis/soil_tabular_model.h5'' \<mapsto> 1,
      ''/app/Models/Soil_analysis/scaler.pkl'' \<mapsto> 2,
      ''/app/Models/Weather_Forecast/weather_model.h5'' \<mapsto> 3,
      ''/app/Models/Weather_Forecast/scaler.pkl'' \<mapsto> 4]"

section \<open>Properties of the request handlers\<close>

lemmas handler_defs = catch_all_def bind_t_def pure_t_def lift_t_def call_t_def lookup_t_def

lemma bind_lift_Inr: "bind_t (lift_t (Inr x)) f = f x"
  by (simp add: bind_t_def lift_t_def split: prod.splits)

lemma all_in_obj: "all_in (JObj kvs) ks = Inr (list_all (\<lambda>k. map_of kvs k \<noteq> None) ks)"
  by (induction ks) auto

lemma obj_features:
  "map (map_of kvs) ks = map Some vs \<Longrightarrow>
     all_in (JObj kvs) ks = Inr True \<and> get_all (JObj kvs) ks = Inr vs"
  by (induction ks arbitrary: vs) auto

lemma get_all_cong:
  "map (map_of kvs1) ks = map (map_of kvs2) ks \<Longrightarrow>
     get_all (JObj kvs1) ks = get_all (JObj kvs2) ks"
  by (induction ks) (auto split: sum.splits option.splits)

lemma all_in_cong:
  "map (map_of kvs1) ks = map (map_of kvs2) ks \<Longrightarrow>
     all_in (JObj kvs1) ks = all_in (JObj kvs2) ks"
  by (induction ks) auto

text \<open>
  The part of claim C1 that the code meets: with the weather model and scaler loaded, a
  payload that has a length other than 3 (a list, but also a string or a dictionary) is
  answered with 400 and a message that gives that length. No library call is made.
\<close>

lemma weather_wrong_length_400:
  assumes "MODELS app ''weather'' = Some m" and "SCALERS app ''weather'' = Some s"
    and "extract_data body = Some data" and "py_len data = Inr n" and "n \<noteq> 3"
  shows "weather_prediction np app (Inr body) = ((ErrorBody (size_message n), 400), [])"
  using assms by (simp add: weather_prediction_def weather_try_def handler_defs bad_size_def)

text \<open>
  C1 (second half, where the code departs from the claim). The claim: when the `data`
  key is absent or its value is None, the response is a 400 that reports a count of 0.
  The code: with the weather model and scaler loaded, the body \<open>{}\<close> gives
  \<open>data = None\<close>; \<open>not data\<close> is true, and formatting the 400 message calls
  \<open>len(None)\<close>, which raises TypeError; the handler's \<open>except\<close> turns it into the
  generic 500.
\<close>

theorem weather_missing_data_is_500:
  "weather_prediction np \<lparr> MODELS = [''weather'' \<mapsto> m], SCALERS = [''weather'' \<mapsto> s] \<rparr>
       (Inr (JObj [])) =
     ((ErrorBody ''Internal server error during weather prediction'', 500), [])"
  by (simp add: weather_prediction_def weather_try_def handler_defs bad_size_def)

text \<open>
  The example product is monotone, and it is exact where the exact product is a multiple
  of \<open>2 ^ - 21\<close>. On the single-precision value nearest to 0.07, which is
  \<open>9395241 / 2 ^ 27\<close>, it gives 7, which is not the exact product.
\<close>

lemma example_round_mono: "x \<le> y \<Longrightarrow> example_round x \<le> example_round y"
  unfolding example_round_def
  by (intro divide_right_mono of_int_le_iff [THEN iffD2] floor_mono) simp_all

lemma example_multiply_mono:
  "x \<le> y \<Longrightarrow> np_multiply example_numpy x 100 \<le> np_multiply example_numpy y 100"
  by (simp add: example_numpy_def example_round_mono)

lemma example_multiply_exact:
  "np_multiply example_numpy 0 100 = 0" "np_multiply example_numpy 1 100 = 100"
  "np_multiply example_numpy (1 / 4) 100 = 25"
  by (simp_all add: example_numpy_def example_round_def)

lemma example_multiply_rounds:
  "np_multiply example_numpy (9395241 / 134217728) 100 = 7
   \<and> (9395241 / 134217728 :: real) * 100 \<noteq> 7"
  by (simp add: example_numpy_def example_round_def)

text \<open>
  C2. A soil request is a JSON object that holds all 12 features with numeric values
  \<open>xs\<close> (in the order of \<open>feature_names\<close>); the soil model and scaler are loaded; the
  scaler and the model return, and the model's output scalar \<open>p\<close> lies in [0,1]. Then
  the response is the 200 whose \<open>fertility_status\<close> is "High" exactly when
  \<open>p > 0.5\<close> and "Low" otherwise and whose \<open>confidence\<close> is the scalar multiplied by
  100, the product being the one the code computes: numpy's floating-point product of
  \<open>p\<close> and 100. That product lies in [0,100] because floating-point multiplication by
  100 is monotone and is exact on 0 and on 1 (the products 0 and 100 are representable);
  these two facts about the library are the hypotheses \<open>monotone\<close> and \<open>exact\<close>.
\<close>

theorem soil_success_response:
  assumes loaded: "MODELS app ''soil'' = Some model" "SCALERS app ''soil'' = Some scaler"
    and fields: "map (map_of kvs) feature_names = map (\<lambda>x. Some (JNum x)) xs"
    and libs: "np_array np (JArr [JArr (map JNum xs)]) = Inr a" "scaler a = Inr b"
      "model b = Inr c" "item00 np c = Inr p"
    and range: "0 \<le> p" "p \<le> 1"
    and monotone: "\<And>x y. x \<le> y \<Longrightarrow> np_multiply np x 100 \<le> np_multiply np y 100"
    and exact: "np_multiply np 0 100 = 0" "np_multiply np 1 100 = 100"
  shows "soil_analysis np app (Inr (JObj kvs)) =
           ((SoilBody (if p > 0.5 then ''High'' else ''Low'') (np_multiply np p 100), 200),
            [ScalerTransform ''soil'', ModelPredict ''soil''])
         \<and> ((if p > 0.5 then ''High'' else ''Low'') = ''High'') = (p > 0.5)
         \<and> 0 \<le> np_multiply np p 100 \<and> np_multiply np p 100 \<le> 100"
proof -
  have "map (map_of kvs) feature_names = map Some (map JNum xs)"
    using fields by simp
  then have feats: "all_in (JObj kvs) feature_names = Inr True"
    "get_all (JObj kvs) feature_names = Inr (map JNum xs)"
    using obj_features by blast+
  have "kvs \<noteq> []"
    using fields by (auto simp: feature_names_def)
  then have response: "soil_analysis np app (Inr (JObj kvs)) =
      ((SoilBody (if p > 0.5 then ''High'' else ''Low'') (np_multiply np p 100), 200),
       [ScalerTransform ''soil'', ModelPredict ''soil''])"
    using loaded feats libs
    by (simp add: soil_analysis_def soil_try_def handler_defs)
  have "np_multiply np 0 100 \<le> np_multiply np p 100"
    using range(1) by (rule monotone)
  then have lower: "0 \<le> np_multiply np p 100"
    using exact(1) by simp
  have "np_multiply np p 100 \<le> np_multiply np 1 100"
    using range(2) by (rule monotone)
  then have upper: "np_multiply np p 100 \<le> 100"
    using exact(2) by simp
  show ?thesis
    using response lower upper by simp
qed

theorem soil_success_response_witness:
  "soil_analysis example_numpy example_app (Inr (JObj example_soil_request)) =
     ((SoilBody ''Low'' 25, 200), [ScalerTransform ''soil'', ModelPredict ''soil''])
   \<and> np_multiply example_numpy (1 / 4) 100 = 25"
proof -
  have h1: "MODELS example_app ''soil'' = Some example_model"
    and h2: "SCALERS example_app ''soil'' = Some example_scaler"
    by (simp_all add: example_app_def)
  have h3: "map (map_of example_soil_request) feature_names =
      map (\<lambda>x. Some (JNum x)) [1, 1, 1, 1, 1, 1, 1, 1, 1, 1, 1, 1]"
    by (simp add: example_soil_request_def feature_names_def)
  have h4: "np_array example_numpy (JArr [JArr (map JNum [1, 1, 1, 1, 1, 1, 1, 1, 1, 1, 1, 1])]) =
      Inr [1, 1, 1, 1, 1, 1, 1, 1, 1, 1, 1, 1]"
    by (simp add: example_numpy_def)
  have h5: "example_scaler [1, 1, 1, 1, 1, 1, 1, 1, 1, 1, 1, 1] =
      Inr [1/2, 1/2, 1/2, 1/2, 1/2, 1/2, 1/2, 1/2, 1/2, 1/2, 1/2, 1/2]"
    by (simp add: example_scaler_def)
  have h6: "example_model [1/2, 1/2, 1/2, 1/2, 1/2, 1/2, 1/2, 1/2, 1/2, 1/2, 1/2, 1/2] = Inr [1/4]"
    by (simp add: example_model_def)
  have h7: "item00 example_numpy [1/4] = Inr (1/4)"
    by (simp add: example_numpy_def)
  have h8: "(0::real) \<le> 1 / 4" and h9: "(1 / 4 :: real) \<le> 1"
    by simp_all
  show ?thesis
    using soil_success_response [OF h1 h2 h3 h4 h5 h6 h7 h8 h9 example_multiply_mono
        example_multiply_exact(1,2)]
      example_multiply_exact(3)
    by simp
qed

text \<open>
  C3. For every list \<open>xs\<close> (so for every list of 3 numbers), the body that is the bare
  array \<open>xs\<close> and the body \<open>{"data": xs}\<close> get the same response, status and
  predicted temperature included, and make the same library calls, for any loaded models
  and scalers.
\<close>

theorem weather_array_and_object_agree:
  "weather_prediction np app (Inr (JArr xs)) =
     weather_prediction np app (Inr (JObj [(''data'', JArr xs)]))"
  by (simp add: weather_prediction_def weather_try_def handler_defs)

text \<open>
  C4, as stated, fails where the soil model or the soil scaler is not loaded: the loaded
  test comes first in the handler, so a request that omits a feature key is then answered
  with 500, not 400. Here nothing is loaded and the request holds only the key "P".
\<close>

theorem soil_missing_feature_unloaded_counterexample:
  "''N'' \<in> set feature_names
   \<and> map_of [(''P'', JNum 1)] ''N'' = None
   \<and> soil_analysis example_numpy \<lparr> MODELS = Map.empty, SCALERS = Map.empty \<rparr>
       (Inr (JObj [(''P'', JNum 1)])) =
     ((ErrorBody ''Soil analysis model not loaded'', 500), [])"
  by (simp add: feature_names_def soil_analysis_def soil_try_def handler_defs)

text \<open>
  C4, amended. When the soil model and the soil scaler are both loaded, a request whose
  JSON object lacks one of the 12 feature keys is answered with status 400, and neither
  the scaler nor the model is called. The message is "No soil data provided" for the
  empty object and "Missing required soil features" otherwise.
\<close>

theorem soil_missing_feature_400:
  assumes "MODELS app ''soil'' = Some m" and "SCALERS app ''soil'' = Some s"
    and "k \<in> set feature_names" and "map_of kvs k = None"
  shows "soil_analysis np app (Inr (JObj kvs)) =
     ((ErrorBody (if kvs = [] then ''No soil data provided''
                  else ''Missing required soil features''), 400), [])"
proof -
  have "all_in (JObj kvs) feature_names = Inr False"
    using assms(3,4) by (auto simp: all_in_obj list_all_iff)
  then show ?thesis
    using assms(1,2) by (simp add: soil_analysis_def soil_try_def handler_defs)
qed

theorem soil_missing_feature_400_witness:
  "soil_analysis example_numpy example_app (Inr (JObj (tl example_soil_request))) =
     ((ErrorBody ''Missing required soil features'', 400), [])"
proof -
  have h1: "MODELS example_app ''soil'' = Some example_model"
    and h2: "SCALERS example_app ''soil'' = Some example_scaler"
    by (simp_all add: example_app_def)
  have h3: "''N'' \<in> set feature_names"
    by (simp add: feature_names_def)
  have h4: "map_of (tl example_soil_request) ''N'' = None"
    by (simp add: example_soil_request_def)
  have "tl example_soil_request \<noteq> []"
    by (simp add: example_soil_request_def)
  then show ?thesis
    using soil_missing_feature_400 [OF h1 h2 h3 h4, of example_numpy] by simp
qed

lemma snd_bind_t:
  "snd (bind_t m f) = snd m @ (case fst m of Inl e \<Rightarrow> [] | Inr x \<Rightarrow> snd (f x))"
  by (auto simp: bind_t_def split: prod.splits sum.splits)

lemma snd_catch_all: "snd (catch_all msg m) = snd m"
  by (auto simp: catch_all_def split: prod.splits sum.splits)

text \<open>
  The calls a request makes: none, the scaler alone, or the scaler and then the model.
  A model is never called before its scaler has returned.
\<close>

lemma soil_calls:
  "snd (soil_analysis np app req) \<in>
     {[], [ScalerTransform ''soil''], [ScalerTransform ''soil'', ModelPredict ''soil'']}"
  by (simp add: soil_analysis_def soil_try_def snd_catch_all snd_bind_t
      pure_t_def lift_t_def call_t_def lookup_t_def split: sum.splits option.splits)

lemma weather_calls:
  "snd (weather_prediction np app req) \<in>
     {[], [ScalerTransform ''weather''],
      [ScalerTransform ''weather'', ModelPredict ''weather'']}"
  by (simp add: weather_prediction_def weather_try_def snd_catch_all snd_bind_t
      pure_t_def lift_t_def call_t_def lookup_t_def split: sum.splits option.splits)

text \<open>
  C5. For each capability: if the model or the scaler is absent from the loaded
  dictionaries, every request (whatever \<open>request.json\<close> gives, also when it raises) is
  answered with status 500 and the endpoint's "not loaded" message, and no library call
  is made; hence a request that does call the model finds both the model and the scaler
  loaded.
\<close>

theorem capability_needs_model_and_scaler:
  "(MODELS app ''soil'' = None \<or> SCALERS app ''soil'' = None \<longrightarrow>
      soil_analysis np app req = ((ErrorBody ''Soil analysis model not loaded'', 500), []))
   \<and> (MODELS app ''weather'' = None \<or> SCALERS app ''weather'' = None \<longrightarrow>
      weather_prediction np app req =
        ((ErrorBody
           ''Weather prediction model or scaler not loaded. Please ensure the weather model and scaler files are available.'',
          500), []))
   \<and> (ModelPredict ''soil'' \<in> set (snd (soil_analysis np app req)) \<longrightarrow>
        MODELS app ''soil'' \<noteq> None \<and> SCALERS app ''soil'' \<noteq> None)
   \<and> (ModelPredict ''weather'' \<in> set (snd (weather_prediction np app req)) \<longrightarrow>
        MODELS app ''weather'' \<noteq> None \<and> SCALERS app ''weather'' \<noteq> None)"
proof -
  have soil: "soil_analysis np app req = ((ErrorBody ''Soil analysis model not loaded'', 500), [])"
    if "MODELS app ''soil'' = None \<or> SCALERS app ''soil'' = None"
    using that by (auto simp: soil_analysis_def soil_try_def handler_defs)
  have weather: "weather_prediction np app req =
      ((ErrorBody
         ''Weather prediction model or scaler not loaded. Please ensure the weather model and scaler files are available.'',
        500), [])"
    if "MODELS app ''weather'' = None \<or> SCALERS app ''weather'' = None"
    using that by (auto simp: weather_prediction_def weather_try_def handler_defs)
  have "MODELS app ''soil'' \<noteq> None \<and> SCALERS app ''soil'' \<noteq> None"
    if "ModelPredict ''soil'' \<in> set (snd (soil_analysis np app req))"
  proof (rule ccontr)
    assume "\<not> (MODELS app ''soil'' \<noteq> None \<and> SCALERS app ''soil'' \<noteq> None)"
    then have "snd (soil_analysis np app req) = []"
      using soil by simp
    with that show False by simp
  qed
  moreover have "MODELS app ''weather'' \<noteq> None \<and> SCALERS app ''weather'' \<noteq> None"
    if "ModelPredict ''weather'' \<in> set (snd (weather_prediction np app req))"
  proof (rule ccontr)
    assume "\<not> (MODELS app ''weather'' \<noteq> None \<and> SCALERS app ''weather'' \<noteq> None)"
    then have "snd (weather_prediction np app req) = []"
      using weather by simp
    with that show False by simp
  qed
  ultimately show ?thesis
    using soil weather by blast
qed

text \<open>
  The witness: with the soil scaler missing, a complete soil request gets the 500; with
  everything loaded, the same request calls the soil model.
\<close>

theorem capability_needs_model_and_scaler_witness:
  "soil_analysis example_numpy (example_app \<lparr> SCALERS := [''weather'' \<mapsto> example_scaler] \<rparr>)
       (Inr (JObj example_soil_request)) =
     ((ErrorBody ''Soil analysis model not loaded'', 500), [])
   \<and> weather_prediction example_numpy (example_app \<lparr> MODELS := Map.empty \<rparr>)
       (Inr (JArr [JNum 1, JNum 2, JNum 3])) =
     ((ErrorBody
        ''Weather prediction model or scaler not loaded. Please ensure the weather model and scaler files are available.'',
       500), [])
   \<and> ModelPredict ''soil'' \<in>
       set (snd (soil_analysis example_numpy example_app (Inr (JObj example_soil_request))))
   \<and> MODELS example_app ''soil'' \<noteq> None \<and> SCALERS example_app ''soil'' \<noteq> None"
proof -
  have a: "SCALERS (example_app \<lparr> SCALERS := [''weather'' \<mapsto> example_scaler] \<rparr>) ''soil'' = None"
    by simp
  have b: "MODELS (example_app \<lparr> MODELS := Map.empty \<rparr>) ''weather'' = None"
    by simp
  have c: "ModelPredict ''soil'' \<in>
      set (snd (soil_analysis example_numpy example_app (Inr (JObj example_soil_request))))"
    by (simp add: soil_analysis_def soil_try_def handler_defs example_app_def
        example_numpy_def example_scaler_def example_model_def example_soil_request_def
        feature_names_def)
  show ?thesis
    using a b c
      capability_needs_model_and_scaler [of "example_app \<lparr> SCALERS := [''weather'' \<mapsto> example_scaler] \<rparr>"
        example_numpy "Inr (JObj example_soil_request)"]
      capability_needs_model_and_scaler [of "example_app \<lparr> MODELS := Map.empty \<rparr>"
        example_numpy "Inr (JArr [JNum 1, JNum 2, JNum 3])"]
      capability_needs_model_and_scaler [of example_app
        example_numpy "Inr (JObj example_soil_request)"]
    by blast
qed

text \<open>
  C7. GET / always answers 200; the two flags of its body say exactly whether "soil" and
  "weather" are keys of \<open>MODELS\<close>; replacing \<open>SCALERS\<close> by anything changes nothing;
  and when the weather model is the only model loaded, \<open>soil_analysis\<close> is false and
  \<open>weather_prediction\<close> is true.
\<close>

theorem index_reports_models:
  "snd (index app) = 200
   \<and> fst (index app) =
       HealthBody ''healthy'' (''soil'' \<in> dom (MODELS app)) (''weather'' \<in> dom (MODELS app))
   \<and> index (app \<lparr> SCALERS := scalers \<rparr>) = index app
   \<and> index \<lparr> MODELS = [''weather'' \<mapsto> m], SCALERS = scalers \<rparr> =
       (HealthBody ''healthy'' False True, 200)"
  by (auto simp: index_def)

text \<open>
  C10. Two soil requests whose JSON objects both hold the 12 feature keys, with the same
  value for each, get the same response and make the same library calls, whatever other
  keys either object has: the handler reads the object only at the 12 names, in the
  order of \<open>feature_names\<close>.
\<close>

theorem soil_extra_fields_ignored:
  assumes "list_all (\<lambda>k. map_of kvs1 k \<noteq> None \<and> map_of kvs1 k = map_of kvs2 k) feature_names"
  shows "soil_analysis np app (Inr (JObj kvs1)) = soil_analysis np app (Inr (JObj kvs2))"
proof -
  have eq: "map (map_of kvs1) feature_names = map (map_of kvs2) feature_names"
    using assms by (simp add: list_all_iff)
  have "map_of kvs1 ''N'' \<noteq> None" "map_of kvs2 ''N'' \<noteq> None"
    using assms by (auto simp: feature_names_def)
  then have ne: "kvs1 \<noteq> []" "kvs2 \<noteq> []"
    by auto
  show ?thesis
    using ne get_all_cong [OF eq] all_in_cong [OF eq]
    by (simp add: soil_analysis_def soil_try_def bind_lift_Inr cong: if_cong)
qed

theorem soil_extra_fields_ignored_witness:
  "soil_analysis example_numpy example_app (Inr (JObj example_soil_request)) =
     soil_analysis example_numpy example_app
       (Inr (JObj ((''farm'', JStr ''north'') # example_soil_request @ [(''note'', JNum 7)])))"
proof -
  have "list_all (\<lambda>k. map_of example_soil_request k \<noteq> None
      \<and> map_of example_soil_request k =
        map_of ((''farm'', JStr ''north'') # example_soil_request @ [(''note'', JNum 7)]) k)
      feature_names"
    by (simp add: example_soil_request_def feature_names_def)
  then show ?thesis
    by (rule soil_extra_fields_ignored)
qed

section \<open>Properties of the loader\<close>

lemma load_try_raises:
  "(fst (load_try env files) \<noteq> None) =
     (let d = current_dir env in
      (path_exists files (soil_model_path d) \<and> isl (load_model env files (soil_model_path d)))
      \<or> (path_exists files (soil_scaler_path d)
           \<and> isl (joblib_load env files (soil_scaler_path d)))
      \<or> (path_exists files (weather_model_path d)
           \<and> isl (load_model env files (weather_model_path d)))
      \<or> (path_exists files (weather_scaler_path d)
           \<and> isl (joblib_load env files (weather_scaler_path d))))"
  by (auto simp: load_try_def then_load_def load_into_def Let_def
      split: sum.splits prod.splits option.splits)

text \<open>
  C6. \<open>files'\<close> are the files after the build phase. If one of the four load calls of
  the loading phase raises (the file is there and \<open>load_model\<close> or \<open>joblib.load\<close>
  raises on it), the function returns two empty dictionaries, whatever was stored in them
  before the exception.
\<close>

theorem load_failure_clears_all:
  assumes "files' = build_phase env files"
    and "(path_exists files' (soil_model_path (current_dir env))
           \<and> isl (load_model env files' (soil_model_path (current_dir env))))
      \<or> (path_exists files' (soil_scaler_path (current_dir env))
           \<and> isl (joblib_load env files' (soil_scaler_path (current_dir env))))
      \<or> (path_exists files' (weather_model_path (current_dir env))
           \<and> isl (load_model env files' (weather_model_path (current_dir env))))
      \<or> (path_exists files' (weather_scaler_path (current_dir env))
           \<and> isl (joblib_load env files' (weather_scaler_path (current_dir env))))"
  shows "load_models_and_scalers env files =
           (\<lparr> MODELS = Map.empty, SCALERS = Map.empty \<rparr>, files')"
proof -
  have "fst (load_try env files') \<noteq> None"
    unfolding load_try_raises Let_def using assms(2) by blast
  then show ?thesis
    using assms(1)
    by (auto simp: load_models_and_scalers_def empty_artifacts_def Let_def
        split: prod.splits option.splits)
qed

lemma example_dirname: "dirname ''/app/Scripts'' = ''/app''"
  by (simp add: dirname_def)

lemmas example_paths =
  soil_model_path_def soil_scaler_path_def weather_model_path_def weather_scaler_path_def
  x_train_scaled_path_def project_root_def example_dirname join_all_def path_join_def

lemma example_build: "build_phase example_loader example_files = example_files"
  by (simp add: build_phase_def run_script_def example_loader_def Let_def)

text \<open>
  In the example the soil model, the soil scaler and the weather model are loaded and
  stored before the weather scaler fails; the function still returns nothing.
\<close>

lemma example_load_try:
  "fst (load_try example_loader example_files) = Some (LibraryError ''UnpicklingError'')
   \<and> MODELS (snd (load_try example_loader example_files)) ''soil'' = Some example_model
   \<and> SCALERS (snd (load_try example_loader example_files)) ''soil'' = Some example_scaler
   \<and> MODELS (snd (load_try example_loader example_files)) ''weather'' = Some example_model"
  by (simp add: load_try_def then_load_def load_into_def example_loader_def
      example_files_def path_exists_def example_paths set_model_def set_scaler_def
      empty_artifacts_def)

theorem load_failure_clears_all_witness:
  "load_models_and_scalers example_loader example_files =
     (\<lparr> MODELS = Map.empty, SCALERS = Map.empty \<rparr>, example_files)"
proof -
  have h1: "example_files = build_phase example_loader example_files"
    by (simp add: example_build)
  have "path_exists example_files (weather_scaler_path (current_dir example_loader))
      \<and> isl (joblib_load example_loader example_files
                (weather_scaler_path (current_dir example_loader)))"
    by (simp add: example_loader_def example_files_def path_exists_def example_paths)
  then show ?thesis
    using load_failure_clears_all [OF h1] by blast
qed

section \<open>Properties of the paths and of the preprocessing script\<close>

lemma path_join_relative:
  "b \<noteq> [] \<Longrightarrow> hd b \<noteq> CHR ''/'' \<Longrightarrow>
     path_join a b = a @ (if a = [] \<or> last a = CHR ''/'' then [] else ''/'') @ b"
  by (simp add: path_join_def)

lemma path_join_inject:
  "a \<noteq> [] \<Longrightarrow> hd a \<noteq> CHR ''/'' \<Longrightarrow> b \<noteq> [] \<Longrightarrow> hd b \<noteq> CHR ''/'' \<Longrightarrow>
     (path_join c a = path_join c b) = (a = b)"
  by (simp add: path_join_relative)

lemma path_join_suffix:
  "b \<noteq> [] \<Longrightarrow> hd b \<noteq> CHR ''/'' \<Longrightarrow> \<exists>pre. path_join a b = pre @ b"
  by (metis path_join_relative append.assoc)

lemma path_join_after_name:
  "b \<noteq> [] \<Longrightarrow> hd b \<noteq> CHR ''/'' \<Longrightarrow> c \<noteq> CHR ''/'' \<Longrightarrow>
     path_join (pre @ [c]) b = pre @ [c] @ ''/'' @ b"
  by (simp add: path_join_def)

lemma soil_scaler_path_suffix:
  "\<exists>pre. soil_scaler_path d = pre @ ''Soil_analysis/scaler.pkl''"
proof -
  have "\<exists>pre. path_join (path_join (project_root d) ''Models'') ''Soil_analysis'' =
      pre @ ''Soil_analysis''"
    by (rule path_join_suffix) simp_all
  then obtain pre where pre: "path_join (path_join (project_root d) ''Models'') ''Soil_analysis'' =
      pre @ ''Soil_analysis''" ..
  have "soil_scaler_path d =
      path_join (path_join (path_join (project_root d) ''Models'') ''Soil_analysis'') ''scaler.pkl''"
    by (simp add: soil_scaler_path_def join_all_def)
  also have "\<dots> = path_join ((pre @ ''Soil_analysi'') @ ''s'') ''scaler.pkl''"
    by (simp only: pre) simp
  also have "\<dots> = (pre @ ''Soil_analysi'') @ ''s'' @ ''/'' @ ''scaler.pkl''"
    by (rule path_join_after_name) simp_all
  finally have r: "soil_scaler_path d = pre @ ''Soil_analysis/scaler.pkl''"
    by simp
  show ?thesis by (rule exI) (rule r)
qed

lemma scaler_out_suffix:
  "\<exists>pre. path_join c scaler_out = pre @ ''Soil_Analysis/scaler.pkl''"
proof -
  have r: "path_join c scaler_out =
      (c @ (if c = [] \<or> last c = CHR ''/'' then [] else ''/'') @ ''Models/'')
        @ ''Soil_Analysis/scaler.pkl''"
    by (simp add: scaler_out_def path_join_relative)
  show ?thesis by (rule exI) (rule r)
qed

lemma csv_out_suffix:
  assumes "p \<in> {x_train_out, x_test_out, y_train_out, y_test_out}"
  shows "\<exists>pre. path_join c p = pre @ ''.csv''"
proof -
  have "\<exists>stem. p = ''Data/Soil/'' @ stem @ ''.csv''"
    using assms
    by (auto simp: x_train_out_def x_test_out_def y_train_out_def y_test_out_def)
  then obtain stem where p: "p = ''Data/Soil/'' @ stem @ ''.csv''"
    by blast
  have r: "path_join c p =
      (c @ (if c = [] \<or> last c = CHR ''/'' then [] else ''/'') @ ''Data/Soil/'' @ stem) @ ''.csv''"
    by (simp add: p path_join_relative)
  show ?thesis by (rule exI) (rule r)
qed

lemma same_length_suffix: "xs @ s = ys @ t \<Longrightarrow> length s = length t \<Longrightarrow> s = t"
  by simp

lemma soil_scaler_path_not_written:
  assumes p: "p \<in> {x_train_out, x_test_out, y_train_out, y_test_out, scaler_out}"
  shows "soil_scaler_path d \<noteq> path_join c p"
proof
  assume eq: "soil_scaler_path d = path_join c p"
  obtain pre where a: "soil_scaler_path d = pre @ ''Soil_analysis/scaler.pkl''"
    using soil_scaler_path_suffix by blast
  show False
  proof (cases "p = scaler_out")
    case True
    obtain pre' where "path_join c p = pre' @ ''Soil_Analysis/scaler.pkl''"
      using scaler_out_suffix True by blast
    then have "pre @ ''Soil_analysis/scaler.pkl'' = pre' @ ''Soil_Analysis/scaler.pkl''"
      using a eq by (simp only:)
    then have "''Soil_analysis/scaler.pkl'' = ''Soil_Analysis/scaler.pkl''"
      by (rule same_length_suffix) simp
    then show False by simp
  next
    case False
    then have "p \<in> {x_train_out, x_test_out, y_train_out, y_test_out}"
      using p by blast
    then obtain pre' where b: "path_join c p = pre' @ ''.csv''"
      using csv_out_suffix by blast
    have "pre @ ''Soil_analysis/scaler.pkl'' = (pre @ ''Soil_analysis/scaler'') @ ''.pkl''"
      by simp
    then have "(pre @ ''Soil_analysis/scaler'') @ ''.pkl'' = pre' @ ''.csv''"
      using a b eq by (simp only:)
    then have "''.pkl'' = ''.csv''"
      by (rule same_length_suffix) simp
    then show False by simp
  qed
qed

lemma keeps_bind:
  assumes m: "keeps q m" and f: "\<And>x. keeps q (f x)"
  shows "keeps q (bind_s m f)"
  unfolding keeps_def
proof
  fix st
  obtain r st1 where run: "m st = (r, st1)"
    by (cases "m st")
  have "fst (snd (m st)) q = fst st q"
    using m [unfolded keeps_def] by (rule spec)
  then have st1: "fst st1 q = fst st q"
    using run by simp
  show "fst (snd (bind_s m f st)) q = fst st q"
  proof (cases r)
    case (Inl e)
    then show ?thesis using run st1 by (simp add: bind_s_def)
  next
    case (Inr x)
    have "fst (snd (f x st1)) q = fst st1 q"
      using f [of x, unfolded keeps_def] by (rule spec)
    then show ?thesis using Inr run st1 by (simp add: bind_s_def)
  qed
qed

lemma keeps_lift: "keeps q (lift_s r)"
  by (simp add: keeps_def lift_s_def)

lemma keeps_step: "keeps q (step_s ev r)"
  by (simp add: keeps_def step_s_def)

lemma keeps_read: "keeps q (read_csv env p)"
  by (simp add: keeps_def read_csv_def step_s_def)

lemma keeps_write: "q \<noteq> path_join (cwd env) p \<Longrightarrow> keeps q (write_file env ev p content)"
  by (simp add: keeps_def write_file_def)

lemma keeps_case_prod: "(\<And>a b. keeps q (f a b)) \<Longrightarrow> keeps q (case_prod f x)"
  by (cases x) simp

lemma keeps_preprocess:
  assumes "\<And>p. p \<in> {x_train_out, x_test_out, y_train_out, y_test_out, scaler_out} \<Longrightarrow>
     q \<noteq> path_join (cwd env) p"
  shows "keeps q (preprocess env)"
  unfolding preprocess_def
  by (intro keeps_bind keeps_lift keeps_step keeps_read keeps_write keeps_case_prod assms) simp_all

lemmas script_defs = preprocess_def bind_s_def lift_s_def step_s_def read_csv_def write_file_def at_cwd_def

lemma preprocess_forward:
  assumes "files (at_cwd env csv_path) = Some f" "parse_csv env f = Inr data"
    and "drop_columns data ''Output'' = Inr X" "column data ''Output'' = Inr y"
    and "train_test_split env X y (1 / 5) 42 = Inr (X_train, X_test, y_train, y_test)"
    and "fit_transform env X_train = Inr (scaler, A_train)"
    and "transform env scaler X_test = Inr A_test"
    and "DataFrame A_train (map fst X) = Inr train_frame"
    and "DataFrame A_test (map fst X) = Inr test_frame"
    and "list_all (\<lambda>p. writable env (at_cwd env p))
           [x_train_out, x_test_out, y_train_out, y_test_out, scaler_out]"
  shows "preprocess env (files, []) =
     (Inr (),
      (files(at_cwd env x_train_out \<mapsto> to_csv env train_frame,
             at_cwd env x_test_out \<mapsto> to_csv env test_frame,
             at_cwd env y_train_out \<mapsto> to_csv env [y_train],
             at_cwd env y_test_out \<mapsto> to_csv env [y_test],
             at_cwd env scaler_out \<mapsto> joblib_dump env scaler),
       [ReadCsv csv_path, TrainTestSplit (1 / 5) 42, FitTransform X_train, Transform X_test,
        ToCsv x_train_out, ToCsv x_test_out, ToCsv y_train_out, ToCsv y_test_out,
        Dump scaler_out]))"
  using assms by (simp add: script_defs)

lemma preprocess_inversion:
  assumes "preprocess env (files, []) = (Inr u, st)"
  shows "\<exists>f data X y X_train X_test y_train y_test scaler A_train A_test train_frame test_frame.
      files (at_cwd env csv_path) = Some f \<and> parse_csv env f = Inr data
    \<and> drop_columns data ''Output'' = Inr X \<and> column data ''Output'' = Inr y
    \<and> train_test_split env X y (1 / 5) 42 = Inr (X_train, X_test, y_train, y_test)
    \<and> fit_transform env X_train = Inr (scaler, A_train)
    \<and> transform env scaler X_test = Inr A_test
    \<and> DataFrame A_train (map fst X) = Inr train_frame
    \<and> DataFrame A_test (map fst X) = Inr test_frame
    \<and> list_all (\<lambda>p. writable env (at_cwd env p))
           [x_train_out, x_test_out, y_train_out, y_test_out, scaler_out]"
  using assms
  by (auto simp: script_defs split: sum.splits prod.splits option.splits if_splits)

lemma rel_paths:
  "p \<in> {csv_path, x_train_out, x_test_out, y_train_out, y_test_out, scaler_out} \<Longrightarrow>
     p \<noteq> [] \<and> hd p \<noteq> CHR ''/''"
  by (auto simp: csv_path_def x_train_out_def x_test_out_def y_train_out_def y_test_out_def scaler_out_def)

lemma csv_path_not_written:
  assumes "p \<in> {x_train_out, x_test_out, y_train_out, y_test_out, scaler_out}"
  shows "at_cwd env csv_path \<noteq> at_cwd env p"
proof -
  have "csv_path \<noteq> p"
    using assms
    by (auto simp: csv_path_def x_train_out_def x_test_out_def y_train_out_def y_test_out_def scaler_out_def)
  moreover have "p \<noteq> [] \<and> hd p \<noteq> CHR ''/''" "csv_path \<noteq> [] \<and> hd csv_path \<noteq> CHR ''/''"
    using assms rel_paths by blast+
  ultimately show ?thesis
    by (simp add: at_cwd_def path_join_inject)
qed

text \<open>
  C8. Every run of the script that ends without an exception has done exactly these
  steps, in this order: it read the CSV at the fixed path; split features \<open>X\<close> (all
  columns but "Output") and target \<open>y\<close> with \<open>test_size\<close> 0.2 (the 80/20 partition)
  and \<open>random_state\<close> 42; fitted the scaler on \<open>X_train\<close>, and on nothing else; applied
  that scaler to \<open>X_train\<close> and to \<open>X_test\<close>; and wrote the four CSV files and the
  pickled scaler to their fixed paths, changing no other file. Run again on the files it
  left, the script does the same steps with the same partition and leaves the same files.
\<close>

theorem preprocess_steps:
  assumes run: "preprocess env (files, []) = (Inr u, (files', steps))"
  shows "\<exists>f data X y X_train X_test y_train y_test scaler A_train A_test train_frame test_frame.
      files (at_cwd env csv_path) = Some f \<and> parse_csv env f = Inr data
    \<and> drop_columns data ''Output'' = Inr X \<and> column data ''Output'' = Inr y
    \<and> train_test_split env X y (1 / 5) 42 = Inr (X_train, X_test, y_train, y_test)
    \<and> fit_transform env X_train = Inr (scaler, A_train)
    \<and> transform env scaler X_test = Inr A_test
    \<and> DataFrame A_train (map fst X) = Inr train_frame
    \<and> DataFrame A_test (map fst X) = Inr test_frame
    \<and> files' = files(at_cwd env x_train_out \<mapsto> to_csv env train_frame,
                      at_cwd env x_test_out \<mapsto> to_csv env test_frame,
                      at_cwd env y_train_out \<mapsto> to_csv env [y_train],
                      at_cwd env y_test_out \<mapsto> to_csv env [y_test],
                      at_cwd env scaler_out \<mapsto> joblib_dump env scaler)
    \<and> steps = [ReadCsv csv_path, TrainTestSplit (1 / 5) 42, FitTransform X_train,
                Transform X_test, ToCsv x_train_out, ToCsv x_test_out, ToCsv y_train_out,
                ToCsv y_test_out, Dump scaler_out]
    \<and> preprocess env (files', []) = (Inr u, (files', steps))"
proof -
  obtain f data X y X_train X_test y_train y_test scaler A_train A_test train_frame test_frame
    where facts: "files (at_cwd env csv_path) = Some f" "parse_csv env f = Inr data"
      "drop_columns data ''Output'' = Inr X" "column data ''Output'' = Inr y"
      "train_test_split env X y (1 / 5) 42 = Inr (X_train, X_test, y_train, y_test)"
      "fit_transform env X_train = Inr (scaler, A_train)"
      "transform env scaler X_test = Inr A_test"
      "DataFrame A_train (map fst X) = Inr train_frame"
      "DataFrame A_test (map fst X) = Inr test_frame"
      "list_all (\<lambda>p. writable env (at_cwd env p))
         [x_train_out, x_test_out, y_train_out, y_test_out, scaler_out]"
    using preprocess_inversion [OF run] by blast
  define out where "out = files(at_cwd env x_train_out \<mapsto> to_csv env train_frame,
                      at_cwd env x_test_out \<mapsto> to_csv env test_frame,
                      at_cwd env y_train_out \<mapsto> to_csv env [y_train],
                      at_cwd env y_test_out \<mapsto> to_csv env [y_test],
                      at_cwd env scaler_out \<mapsto> joblib_dump env scaler)"
  define tr where "tr = [ReadCsv csv_path, TrainTestSplit (1 / 5) 42, FitTransform X_train,
                Transform X_test, ToCsv x_train_out, ToCsv x_test_out, ToCsv y_train_out,
                ToCsv y_test_out, Dump scaler_out]"
  have first: "preprocess env (files, []) = (Inr (), (out, tr))"
    unfolding out_def tr_def by (rule preprocess_forward) (rule facts)+
  then have res: "files' = out" "steps = tr"
    using run by simp_all
  have "out (at_cwd env csv_path) = files (at_cwd env csv_path)"
    using csv_path_not_written [of _ env] by (simp add: out_def)
  then have "out (at_cwd env csv_path) = Some f"
    using facts(1) by simp
  then have "preprocess env (out, []) =
      (Inr (), (out(at_cwd env x_train_out \<mapsto> to_csv env train_frame,
                      at_cwd env x_test_out \<mapsto> to_csv env test_frame,
                      at_cwd env y_train_out \<mapsto> to_csv env [y_train],
                      at_cwd env y_test_out \<mapsto> to_csv env [y_test],
                      at_cwd env scaler_out \<mapsto> joblib_dump env scaler), tr))"
    unfolding tr_def by (rule preprocess_forward) (rule facts(2-))+
  moreover have "out(at_cwd env x_train_out \<mapsto> to_csv env train_frame,
                      at_cwd env x_test_out \<mapsto> to_csv env test_frame,
                      at_cwd env y_train_out \<mapsto> to_csv env [y_train],
                      at_cwd env y_test_out \<mapsto> to_csv env [y_test],
                      at_cwd env scaler_out \<mapsto> joblib_dump env scaler) = out"
    by (rule ext) (simp add: out_def)
  ultimately have second: "preprocess env (files', []) = (Inr u, (files', steps))"
    using res by simp
  show ?thesis
    using facts(1-9) res second unfolding out_def tr_def by blast
qed

lemma example_preprocess_run:
  "preprocess example_pre_env (example_pre_files, []) =
     (Inr (), (example_pre_after, example_steps))"
  by (simp add: script_defs example_pre_env_def example_pre_files_def example_pre_after_def
      example_steps_def example_split_def drop_columns_def column_def DataFrame_def
      csv_path_def x_train_out_def x_test_out_def y_train_out_def y_test_out_def
      scaler_out_def path_join_def)

theorem preprocess_steps_witness:
  "preprocess example_pre_env (example_pre_files, []) =
     (Inr (), (example_pre_after, example_steps))
   \<and> preprocess example_pre_env (example_pre_after, []) =
     (Inr (), (example_pre_after, example_steps))"
  using preprocess_steps [OF example_preprocess_run] example_preprocess_run by blast

text \<open>
  C9. The path the loader reads the soil scaler from ends in
  \<open>Soil_analysis/scaler.pkl\<close>, the path the script writes it to in
  \<open>Soil_Analysis/scaler.pkl\<close>: the two strings differ, for every directory of app.py
  and every working directory of the script. With files named by their exact path
  strings (a case-sensitive file system without links), no run of the script, finished
  or aborted, changes what is stored at the loader's path: the loader never reads the
  scaler the script wrote, and the existence test on the loader's path, which triggers
  preprocessing, gives the same answer after the run as before.
\<close>

theorem soil_scaler_path_mismatch:
  "soil_scaler_path d \<noteq> scaler_out
   \<and> soil_scaler_path d \<noteq> at_cwd env scaler_out
   \<and> fst (snd (preprocess env (files, steps))) (soil_scaler_path d) =
       files (soil_scaler_path d)
   \<and> path_exists (fst (snd (preprocess env (files, steps)))) (soil_scaler_path d) =
       path_exists files (soil_scaler_path d)"
proof -
  have literal: "soil_scaler_path d \<noteq> scaler_out"
  proof
    assume eq: "soil_scaler_path d = scaler_out"
    obtain pre where "soil_scaler_path d = pre @ ''Soil_analysis/scaler.pkl''"
      using soil_scaler_path_suffix by blast
    moreover have "scaler_out = ''Models/'' @ ''Soil_Analysis/scaler.pkl''"
      by (simp add: scaler_out_def)
    ultimately have "pre @ ''Soil_analysis/scaler.pkl'' = ''Models/'' @ ''Soil_Analysis/scaler.pkl''"
      using eq by (simp only:)
    then have "''Soil_analysis/scaler.pkl'' = ''Soil_Analysis/scaler.pkl''"
      by (rule same_length_suffix) simp
    then show False by simp
  qed
  have resolved: "soil_scaler_path d \<noteq> at_cwd env scaler_out"
    unfolding at_cwd_def by (rule soil_scaler_path_not_written) simp
  have "keeps (soil_scaler_path d) (preprocess env)"
    by (rule keeps_preprocess) (rule soil_scaler_path_not_written)
  then have "fst (snd (preprocess env (files, steps))) (soil_scaler_path d) =
      fst (files, steps) (soil_scaler_path d)"
    unfolding keeps_def by (rule spec)
  then have same: "fst (snd (preprocess env (files, steps))) (soil_scaler_path d) =
      files (soil_scaler_path d)"
    by simp
  show ?thesis
    using literal resolved same by (simp add: path_exists_def)
qed

text \<open>
  In the example run the scaler is on disk afterwards, and the loader started from
  \<open>/app/Scripts\<close> still does not find one.
\<close>

lemma example_scaler_not_seen:
  "path_exists example_pre_after (at_cwd example_pre_env scaler_out)
   \<and> \<not> path_exists example_pre_after (soil_scaler_path ''/app/Scripts'')"
  by (simp add: path_exists_def example_pre_after_def example_pre_files_def at_cwd_def
      example_pre_env_def scaler_out_def example_paths)

end
